theory Spec2Isabelle
  imports Main "HOL-Library.Sublist" "HOL-Library.AList"
begin

chapter \<open>The task pipeline: generator, publication target, reporter, front door\<close>

text \<open>
  A shallow embedding of \<^verbatim>\<open>evaluator.py\<close>, \<^verbatim>\<open>github_manager.py\<close>,
  \<^verbatim>\<open>code_generator.py\<close> and \<^verbatim>\<open>app.py\<close>. Python strings are \<^typ>\<open>string\<close>
  (code points below 256), Python integers are \<^typ>\<open>int\<close>, a dictionary whose insertion
  order matters is an association list updated with \<^const>\<open>AList.update\<close>, and every
  exception is a value of a sum type. Calls that leave the process (HTTP posts, the hosting
  platform, the text-generation service, the clock) are parameters of the model, and the
  functions return the calls they made next to their result.
\<close>

section \<open>Python string operations\<close>

text \<open>\<^verbatim>\<open>s.startswith(p)\<close>, \<^verbatim>\<open>s.endswith(p)\<close> and \<^verbatim>\<open>p in s\<close>.\<close>

definition startswith :: "string \<Rightarrow> string \<Rightarrow> bool" where
  "startswith s p = prefix p s"

definition endswith :: "string \<Rightarrow> string \<Rightarrow> bool" where
  "endswith s p = suffix p s"

definition py_in :: "string \<Rightarrow> string \<Rightarrow> bool" where
  "py_in p s = sublist p s"

text \<open>\<^verbatim>\<open>xs[:n]\<close>: a negative bound counts from the end.\<close>

definition slice_to :: "'a list \<Rightarrow> int \<Rightarrow> 'a list" where
  "slice_to xs n = (if n < 0 then take (nat (int (length xs) + n)) xs else take (nat n) xs)"

text \<open>\<^verbatim>\<open>enumerate(xs, 1)\<close>.\<close>

definition enumerate1 :: "'a list \<Rightarrow> (nat \<times> 'a) list" where
  "enumerate1 xs = zip [1 ..< Suc (length xs)] xs"

section \<open>evaluator.py: the result reporter\<close>

text \<open>
  \<^verbatim>\<open>requests.post\<close> either returns a response, of which the code reads the status
  code, or raises; the exceptions of \<^verbatim>\<open>requests\<close> are all subclasses of
  \<^verbatim>\<open>RequestException\<close>, \<^verbatim>\<open>Timeout\<close> among them. The server is a function
  of the URL, the payload and the number of the attempt.
\<close>

datatype request_exception = Timeout | ConnectionError | OtherRequestException

datatype post_outcome = Response int | Raises request_exception

datatype reporter_event = Post nat | Sleep nat

definition retry_delays :: "nat list" where
  "retry_delays = [1, 2, 4, 8, 16]"

text \<open>
  The body of the \<^verbatim>\<open>try\<close>: \<^term>\<open>Some b\<close> is \<^verbatim>\<open>return b\<close>, \<^term>\<open>None\<close> is
  falling through to the wait (a status that is neither 200 nor 4xx, or one of the two
  \<^verbatim>\<open>except\<close> clauses, which only print).
\<close>

fun attempt_result :: "post_outcome \<Rightarrow> bool option" where
  "attempt_result (Response status_code) =
     (if status_code = 200 then Some True
      else if 400 \<le> status_code \<and> status_code < 500 then Some False
      else None)"
| "attempt_result (Raises Timeout) = None"
| "attempt_result (Raises e) = None"

text \<open>The \<^verbatim>\<open>for attempt, delay in enumerate(retry_delays[:max_retries], 1)\<close> loop.\<close>

fun attempt_loop ::
  "(nat \<Rightarrow> post_outcome) \<Rightarrow> int \<Rightarrow> (nat \<times> nat) list \<Rightarrow> bool \<times> reporter_event list" where
  "attempt_loop post max_retries [] = (False, [])"
| "attempt_loop post max_retries ((attempt, delay) # rest) =
     (case attempt_result (post attempt) of
        Some b \<Rightarrow> (b, [Post attempt])
      | None \<Rightarrow>
          (let waited = (if int attempt < max_retries then [Sleep delay] else []);
               (r, evs) = attempt_loop post max_retries rest
           in (r, Post attempt # waited @ evs)))"

definition submit_to_evaluation ::
  "(string \<Rightarrow> 'd \<Rightarrow> nat \<Rightarrow> post_outcome) \<Rightarrow> string \<Rightarrow> 'd \<Rightarrow> int \<Rightarrow> bool \<times> reporter_event list" where
  "submit_to_evaluation requests_post url data max_retries =
     attempt_loop (requests_post url data) max_retries
       (enumerate1 (slice_to retry_delays max_retries))"


text \<open>The attempts made and the delays slept, read off the events.\<close>

fun posts :: "reporter_event list \<Rightarrow> nat list" where
  "posts [] = []"
| "posts (Post a # evs) = a # posts evs"
| "posts (Sleep d # evs) = posts evs"



section \<open>github\_manager.py: the publication target\<close>

text \<open>
  The hosting platform is a parameter. A call either returns a value or raises; the code
  tells \<^verbatim>\<open>GithubException\<close> (with its status) from every other exception. The platform
  has a state of its own (type \<open>'s\<close>), which every call may read and change.
\<close>

datatype exn = GithubException int | OtherException

datatype repository = Repository (html_url: string) (repo_name: string)

datatype tree_element =
  TreeElement (el_path: string) (el_mode: string) (el_type: string) (el_sha: string)

text \<open>
  The calls the manager makes, with the arguments it passes:
  \<^verbatim>\<open>user.create_repo(name, description, private, auto_init)\<close>, \<^verbatim>\<open>user.get_repo(name)\<close>,
  \<^verbatim>\<open>repo.create_git_blob(content, encoding)\<close>, \<^verbatim>\<open>repo.create_git_tree(elements)\<close>,
  \<^verbatim>\<open>repo.create_git_commit(message, tree, parents)\<close>, \<^verbatim>\<open>repo.get_git_ref(ref)\<close>,
  \<^verbatim>\<open>ref.edit(sha)\<close>, \<^verbatim>\<open>repo.create_git_ref(ref, sha)\<close>, \<^verbatim>\<open>repo.get_contents(path)\<close>,
  \<^verbatim>\<open>repo.update_file(path, message, content, sha, branch)\<close>,
  \<^verbatim>\<open>repo.create_file(path, message, content, branch)\<close>, \<^verbatim>\<open>repo.get_commits()\<close>,
  \<^verbatim>\<open>repo.create_pages_site(source)\<close> and \<^verbatim>\<open>time.sleep(seconds)\<close>.
\<close>

datatype gh_call =
    CreateRepo string string bool bool
  | GetRepo string
  | CreateGitBlob string string
  | CreateGitTree "tree_element list"
  | CreateGitCommit string string "string list"
  | GetGitRef string
  | RefEdit string string
  | CreateGitRef string string
  | GetContents string
  | UpdateFile string string string string string
  | CreateFile string string string string
  | GetCommits
  | CreatePagesSite string string
  | TimeSleep nat

text \<open>
  The platform's answers, by the type of what the code reads from them: a repository
  handle, a hash (of a blob, a tree, a commit or a file), the hashes of the commits
  (latest first), or nothing. \<open>elapse\<close> is what a \<^verbatim>\<open>time.sleep\<close> lets happen.
\<close>

record 's github =
  repo_of :: "gh_call \<Rightarrow> 's \<Rightarrow> (exn + repository) \<times> 's"
  sha_of :: "repository \<Rightarrow> gh_call \<Rightarrow> 's \<Rightarrow> (exn + string) \<times> 's"
  shas_of :: "repository \<Rightarrow> gh_call \<Rightarrow> 's \<Rightarrow> (exn + string list) \<times> 's"
  done_of :: "repository \<Rightarrow> gh_call \<Rightarrow> 's \<Rightarrow> (exn + unit) \<times> 's"
  elapse :: "nat \<Rightarrow> 's \<Rightarrow> 's"

text \<open>
  A computation on the platform returns its result or the exception raised, the
  platform's new state, and the calls made, in order.
\<close>

type_synonym ('s, 'a) gh = "'s \<Rightarrow> (exn + 'a) \<times> 's \<times> gh_call list"

definition gh_return :: "'a \<Rightarrow> ('s, 'a) gh" where
  "gh_return a = (\<lambda>s. (Inr a, s, []))"

definition gh_raise :: "exn \<Rightarrow> ('s, 'a) gh" where
  "gh_raise e = (\<lambda>s. (Inl e, s, []))"

definition gh_bind :: "('s, 'a) gh \<Rightarrow> ('a \<Rightarrow> ('s, 'b) gh) \<Rightarrow> ('s, 'b) gh" where
  "gh_bind m f = (\<lambda>s.
     case m s of
       (Inl e, s1, t1) \<Rightarrow> (Inl e, s1, t1)
     | (Inr a, s1, t1) \<Rightarrow> (case f a s1 of (r, s2, t2) \<Rightarrow> (r, s2, t1 @ t2)))"

text \<open>\<^verbatim>\<open>try: m except ... as e: h(e)\<close>; a handler that does not catch \<open>e\<close> raises it again.\<close>

definition gh_try :: "('s, 'a) gh \<Rightarrow> (exn \<Rightarrow> ('s, 'a) gh) \<Rightarrow> ('s, 'a) gh" where
  "gh_try m h = (\<lambda>s.
     case m s of
       (Inl e, s1, t1) \<Rightarrow> (case h e s1 of (r, s2, t2) \<Rightarrow> (r, s2, t1 @ t2))
     | (Inr a, s1, t1) \<Rightarrow> (Inr a, s1, t1))"

definition gh_request :: "(gh_call \<Rightarrow> 's \<Rightarrow> (exn + 'a) \<times> 's) \<Rightarrow> gh_call \<Rightarrow> ('s, 'a) gh" where
  "gh_request api c = (\<lambda>s. case api c s of (r, s1) \<Rightarrow> (r, s1, [c]))"

definition time_sleep :: "'s github \<Rightarrow> nat \<Rightarrow> ('s, unit) gh" where
  "time_sleep G seconds = (\<lambda>s. (Inr (), elapse G seconds s, [TimeSleep seconds]))"

text \<open>
  The data URI branch, written twice in the source (in \<^verbatim>\<open>_create_initial_commit\<close> and in
  \<^verbatim>\<open>_update_or_create_file\<close>) with the same text: the content is replaced first, from
  the original file name, then the file name.
\<close>

definition data_uri_reference :: "string \<times> string \<Rightarrow> string \<times> string" where
  "data_uri_reference file =
     (case file of (filename, content) \<Rightarrow>
        if startswith content ''data:''
        then (''attachments/'' @ filename @ ''.txt'',
              ''# '' @ filename @ [CHR 0x0A, CHR 0x0A] @ ''This file was provided as an attachment.''
                @ [CHR 0x0A] @ ''Data URI: '' @ take 100 content @ ''...'')
        else (filename, content))"

text \<open>\<^verbatim>\<open>_create_initial_commit\<close>: the loop that creates one blob per file.\<close>

fun create_blobs ::
  "'s github \<Rightarrow> repository \<Rightarrow> (string \<times> string) list \<Rightarrow> ('s, tree_element list) gh" where
  "create_blobs G repo [] = gh_return []"
| "create_blobs G repo (file # files) =
     gh_bind (gh_request (sha_of G repo) (CreateGitBlob (snd (data_uri_reference file)) ''utf-8''))
       (\<lambda>blob_sha.
     gh_bind (create_blobs G repo files)
       (\<lambda>elements.
     gh_return (TreeElement (fst (data_uri_reference file)) ''100644'' ''blob'' blob_sha # elements)))"

definition create_initial_commit ::
  "'s github \<Rightarrow> repository \<Rightarrow> (string \<times> string) list \<Rightarrow> ('s, string) gh" where
  "create_initial_commit G repo files =
     gh_bind (create_blobs G repo files)
       (\<lambda>elements.
     gh_bind (gh_request (sha_of G repo) (CreateGitTree elements))
       (\<lambda>tree.
     gh_bind (gh_request (sha_of G repo)
                (CreateGitCommit ''Initial commit - Auto-generated application'' tree []))
       (\<lambda>commit_sha.
     gh_bind (gh_try
                (gh_bind (gh_request (done_of G repo) (GetGitRef ''heads/main''))
                   (\<lambda>ref. gh_request (done_of G repo) (RefEdit ''heads/main'' commit_sha)))
                (\<lambda>e. gh_request (done_of G repo) (CreateGitRef ''refs/heads/main'' commit_sha)))
       (\<lambda>u.
     gh_return commit_sha))))"

text \<open>
  \<^verbatim>\<open>_enable_pages\<close>: a \<^verbatim>\<open>GithubException\<close> is printed and dropped, whatever its status.
\<close>

definition enable_pages :: "'s github \<Rightarrow> string \<Rightarrow> repository \<Rightarrow> ('s, string) gh" where
  "enable_pages G username repo =
     gh_bind (gh_try (gh_request (done_of G repo) (CreatePagesSite ''main'' ''/''))
                (\<lambda>e. case e of GithubException status \<Rightarrow> gh_return ()
                              | OtherException \<Rightarrow> gh_raise e))
       (\<lambda>u.
     gh_return (''https://'' @ username @ ''.github.io/'' @ repo_name repo @ ''/''))"

text \<open>
  \<^verbatim>\<open>_update_or_create_file\<close>: the inner \<^verbatim>\<open>try\<close> covers \<^verbatim>\<open>get_contents\<close> and
  \<^verbatim>\<open>update_file\<close>; only a \<^verbatim>\<open>GithubException\<close> of status 404 leads to \<^verbatim>\<open>create_file\<close>.
\<close>

definition update_or_create_file ::
  "'s github \<Rightarrow> repository \<Rightarrow> string \<times> string \<Rightarrow> ('s, unit) gh" where
  "update_or_create_file G repo file =
     (let filename = fst (data_uri_reference file); content = snd (data_uri_reference file) in
      gh_try
        (gh_bind (gh_request (sha_of G repo) (GetContents filename))
           (\<lambda>file_sha.
         gh_request (done_of G repo)
           (UpdateFile filename (''Update '' @ filename) content file_sha ''main'')))
        (\<lambda>e. case e of
           GithubException status \<Rightarrow>
             if status = 404
             then gh_request (done_of G repo)
                    (CreateFile filename (''Add '' @ filename) content ''main'')
             else gh_raise e
         | OtherException \<Rightarrow> gh_raise e))"

fun update_files ::
  "'s github \<Rightarrow> repository \<Rightarrow> (string \<times> string) list \<Rightarrow> ('s, unit) gh" where
  "update_files G repo [] = gh_return ()"
| "update_files G repo (file # files) =
     gh_bind (update_or_create_file G repo file) (\<lambda>u. update_files G repo files)"

text \<open>
  \<^verbatim>\<open>update_repo\<close>: \<^verbatim>\<open>commits[0]\<close> of an empty list is an \<^verbatim>\<open>IndexError\<close>; every
  exception of \<^verbatim>\<open>_enable_pages\<close> is dropped here.
\<close>

definition update_repo ::
  "'s github \<Rightarrow> string \<Rightarrow> string \<Rightarrow> (string \<times> string) list \<Rightarrow> ('s, string \<times> string \<times> string) gh" where
  "update_repo G username name files =
     gh_bind (gh_request (repo_of G) (GetRepo name))
       (\<lambda>repo.
     gh_bind (update_files G repo files)
       (\<lambda>u.
     gh_bind (gh_request (shas_of G repo) GetCommits)
       (\<lambda>commits.
     gh_bind (case commits of [] \<Rightarrow> gh_raise OtherException | c # cs \<Rightarrow> gh_return c)
       (\<lambda>latest_commit.
     gh_bind (gh_try (gh_bind (enable_pages G username repo) (\<lambda>p. gh_return ()))
                (\<lambda>e. gh_return ()))
       (\<lambda>u.
     gh_return (html_url repo, latest_commit,
                ''https://'' @ username @ ''.github.io/'' @ name @ ''/''))))))"

text \<open>
  \<^verbatim>\<open>create_repo\<close>: the \<^verbatim>\<open>try\<close> covers the whole body; a \<^verbatim>\<open>GithubException\<close> of
  status 422 from any call in it leads to \<^verbatim>\<open>update_repo\<close>, every other exception is
  raised again.
\<close>

definition create_repo_body ::
  "'s github \<Rightarrow> string \<Rightarrow> string \<Rightarrow> (string \<times> string) list \<Rightarrow> string
     \<Rightarrow> ('s, string \<times> string \<times> string) gh" where
  "create_repo_body G username name files description =
     gh_bind (gh_request (repo_of G) (CreateRepo name description False False))
       (\<lambda>repo.
     gh_bind (time_sleep G 2)
       (\<lambda>u.
     gh_bind (create_initial_commit G repo files)
       (\<lambda>commit_sha.
     gh_bind (enable_pages G username repo)
       (\<lambda>pages_url.
     gh_bind (time_sleep G 5)
       (\<lambda>u.
     gh_return (html_url repo, commit_sha, pages_url))))))"

definition create_repo ::
  "'s github \<Rightarrow> string \<Rightarrow> string \<Rightarrow> (string \<times> string) list \<Rightarrow> string
     \<Rightarrow> ('s, string \<times> string \<times> string) gh" where
  "create_repo G username name files description =
     gh_try (create_repo_body G username name files description)
       (\<lambda>e. case e of
          GithubException status \<Rightarrow>
            if status = 422 then update_repo G username name files else gh_raise e
        | OtherException \<Rightarrow> gh_raise e)"

section \<open>code\_generator.py: the content generator\<close>

subsection \<open>More string operations\<close>

text \<open>
  \<^verbatim>\<open>str.strip()\<close> removes leading and trailing whitespace; these are the code points
  below 256 for which \<^verbatim>\<open>str.isspace()\<close> holds.
\<close>

definition is_space :: "char \<Rightarrow> bool" where
  "is_space c = (c \<in> set [CHR 0x09, CHR 0x0A, CHR 0x0B, CHR 0x0C, CHR 0x0D, CHR 0x1C, CHR 0x1D,
                          CHR 0x1E, CHR 0x1F, CHR 0x20, CHR 0x85, CHR 0xA0])"

definition strip :: "string \<Rightarrow> string" where
  "strip s = rev (dropWhile is_space (rev (dropWhile is_space s)))"

text \<open>\<^verbatim>\<open>s.split(c)\<close> for a one-character separator: never an empty list.\<close>

fun split_on :: "char \<Rightarrow> string \<Rightarrow> string list" where
  "split_on c [] = [[]]"
| "split_on c (x # xs) =
     (if x = c then [] # split_on c xs
      else (case split_on c xs of l # ls \<Rightarrow> (x # l) # ls | [] \<Rightarrow> [[x]]))"

text \<open>\<^verbatim>\<open>s.split(c, 1)\<close>: \<^term>\<open>None\<close> when the result has one part only.\<close>

fun split_once :: "char \<Rightarrow> string \<Rightarrow> (string \<times> string) option" where
  "split_once c [] = None"
| "split_once c (x # xs) =
     (if x = c then Some ([], xs)
      else (case split_once c xs of None \<Rightarrow> None | Some (l, r) \<Rightarrow> Some (x # l, r)))"

text \<open>\<^verbatim>\<open>sep.join(parts)\<close>.\<close>

fun join_with :: "string \<Rightarrow> string list \<Rightarrow> string" where
  "join_with sep [] = []"
| "join_with sep [l] = l"
| "join_with sep (l # l' # ls) = l @ sep @ join_with sep (l' # ls)"

text \<open>
  \<^verbatim>\<open>s.replace(old, '')\<close>: the occurrences of \<open>old\<close> are found from the left, each search
  starting after the previous occurrence, and removed.
\<close>

fun remove_all :: "string \<Rightarrow> string \<Rightarrow> string" where
  "remove_all old [] = []"
| "remove_all old (c # cs) =
     (if old \<noteq> [] \<and> prefix old (c # cs)
      then remove_all old (drop (length old) (c # cs))
      else c # remove_all old cs)"

definition nl :: string where
  "nl = [CHR 0x0A]"

definition quoted :: "string \<Rightarrow> string" where
  "quoted s = [CHR 0x22] @ s @ [CHR 0x22]"

subsection \<open>Attachments and the prompt\<close>

text \<open>An attachment is a dictionary; the code reads its keys \<^verbatim>\<open>name\<close> and \<^verbatim>\<open>url\<close>.\<close>

datatype attachment = Attachment (att_name: "string option") (att_url: "string option")

text \<open>\<^verbatim>\<open>d.get(key, default)\<close>.\<close>

definition get_or :: "string option \<Rightarrow> string \<Rightarrow> string" where
  "get_or v d = (case v of None \<Rightarrow> d | Some x \<Rightarrow> x)"

text \<open>
  What one attachment adds to \<^verbatim>\<open>info\<close>. \<open>b64decode_text data\<close> stands for
  \<^verbatim>\<open>base64.b64decode(data).decode('utf-8', errors='ignore')\<close>, with \<^term>\<open>None\<close> when that
  raises. A data URI without a comma adds nothing.
\<close>

definition attachment_info :: "(string \<Rightarrow> string option) \<Rightarrow> attachment \<Rightarrow> string" where
  "attachment_info b64decode_text att =
     (let name = get_or (att_name att) ''unknown''; url = get_or (att_url att) [] in
      if startswith url ''data:'' then
        (case split_once (CHR '','') url of
           Some (mime_info, data) \<Rightarrow>
             if py_in ''base64'' mime_info then
               (case b64decode_text data of
                  Some decoded \<Rightarrow> ''- '' @ name @ '': '' @ take 200 decoded @ ''...'' @ nl
                | None \<Rightarrow> ''- '' @ name @ '': [binary data]'' @ nl)
             else ''- '' @ name @ '': '' @ take 200 data @ ''...'' @ nl
         | None \<Rightarrow> [])
      else ''- '' @ name @ '': '' @ url @ nl)"

definition process_attachments :: "(string \<Rightarrow> string option) \<Rightarrow> attachment list \<Rightarrow> string" where
  "process_attachments b64decode_text attachments =
     (if attachments = [] then ''No attachments provided.''
      else ''Attachments:'' @ nl @ concat (map (attachment_info b64decode_text) attachments))"

definition checks_str :: "string list \<Rightarrow> string" where
  "checks_str checks = join_with nl (map (\<lambda>check. ''- '' @ check) checks)"

text \<open>
  The prompt template of \<^verbatim>\<open>_create_prompt\<close>, line by line. Its last lines show the
  delimiter convention the parser below reads.
\<close>

definition prompt_head :: string where
  "prompt_head = join_with nl
     [''You are an expert web developer. Create a complete, functional single-page web application based on the following requirements.'',
      [],
      ''BRIEF:'',
      []]"

definition prompt_tail :: string where
  "prompt_tail = join_with nl
     [[],
      [],
      ''REQUIREMENTS:'',
      ''1. Create a single HTML file with embedded CSS and JavaScript'',
      ''2. Use CDN links for any libraries (Bootstrap, marked, highlight.js, etc.)'',
      ''3. Make the code clean, well-commented, and professional'',
      ''4. Ensure ALL checks will pass'',
      ''5. If attachments are provided as data URIs, embed them directly in the code or fetch them'',
      ''6. The app should be fully functional and production-ready'',
      ''7. Handle errors gracefully'',
      ''8. Use modern ES6+ JavaScript'',
      [],
      ''OUTPUT FORMAT:'',
      ''Provide the complete HTML file content. Start with <!DOCTYPE html> and include everything in a single file.'',
      ''After the HTML file, if needed, provide a README.md with:'',
      ''- Project title and description'',
      ''- Features'',
      ''- How to use'',
      ''- Code structure explanation'',
      ''- Technologies used'',
      [],
      ''Use this format:'',
      ''=== index.html ==='',
      ''[HTML content here]'',
      [],
      ''=== README.md ==='',
      ''[README content here]'',
      [],
      ''Now generate the complete application code:'']"

definition create_prompt :: "string \<Rightarrow> string list \<Rightarrow> string \<Rightarrow> string" where
  "create_prompt brief checks attachments_info =
     prompt_head @ brief @ nl @ nl @ ''CHECKS (These will be tested):'' @ nl
       @ checks_str checks @ nl @ nl @ attachments_info @ prompt_tail"

subsection \<open>The provider\<close>

text \<open>
  \<^verbatim>\<open>_call_llm\<close> dispatches on the provider name; the three back ends post the prompt and
  unwrap the answer, and are one parameter here: the provider name and the prompt give the
  completion or an exception (with its text).
\<close>

datatype gen_exn = ValueError string | BackendError string

definition call_llm ::
  "(string \<Rightarrow> string \<Rightarrow> gen_exn + string) \<Rightarrow> string \<Rightarrow> string \<Rightarrow> gen_exn + string" where
  "call_llm backend provider prompt =
     (if provider = ''gemini'' then backend ''gemini'' prompt
      else if provider = ''openai'' then backend ''openai'' prompt
      else if provider = ''anthropic'' then backend ''anthropic'' prompt
      else Inl (ValueError (''Unsupported provider: '' @ provider)))"

subsection \<open>Parsing the completion\<close>

text \<open>
  The marker test and the file name of a marker line, as \<^verbatim>\<open>_parse_response\<close> computes
  them: \<^verbatim>\<open>line.strip().startswith('=== ') and line.strip().endswith(' ===')\<close>, and
  \<^verbatim>\<open>line.strip().replace('=== ', '').replace(' ===', '').strip()\<close>.
\<close>

definition is_marker :: "string \<Rightarrow> bool" where
  "is_marker line = (startswith (strip line) ''=== '' \<and> endswith (strip line) '' ==='')"

definition marker_name :: "string \<Rightarrow> string" where
  "marker_name line = strip (remove_all '' ==='' (remove_all ''=== '' (strip line)))"

text \<open>
  \<^verbatim>\<open>if current_file: files[current_file] = '\n'.join(current_content).strip()\<close>:
  \<^verbatim>\<open>None\<close> and the empty string are both false.
\<close>

definition truthy :: "string option \<Rightarrow> bool" where
  "truthy current_file = (case current_file of None \<Rightarrow> False | Some n \<Rightarrow> n \<noteq> [])"

definition save_file ::
  "(string \<times> string) list \<Rightarrow> string option \<Rightarrow> string list \<Rightarrow> (string \<times> string) list" where
  "save_file files current_file current_content =
     (if truthy current_file
      then AList.update (get_or current_file []) (strip (join_with nl current_content)) files
      else files)"

fun parse_lines ::
  "string list \<Rightarrow> (string \<times> string) list \<Rightarrow> string option \<Rightarrow> string list
     \<Rightarrow> (string \<times> string) list" where
  "parse_lines [] files current_file current_content =
     save_file files current_file current_content"
| "parse_lines (line # lines) files current_file current_content =
     (if is_marker line
      then parse_lines lines (save_file files current_file current_content)
             (Some (marker_name line)) []
      else if truthy current_file
      then parse_lines lines files current_file (current_content @ [line])
      else parse_lines lines files current_file current_content)"

text \<open>The delimiter parser proper: the first half of \<^verbatim>\<open>_parse_response\<close>.\<close>

definition parse_sections :: "string \<Rightarrow> (string \<times> string) list" where
  "parse_sections response = parse_lines (split_on (CHR 0x0A) response) [] None []"

definition html_skeleton :: "string \<Rightarrow> string" where
  "html_skeleton response = join_with nl
     [''<!DOCTYPE html>'',
      ''<html lang='' @ quoted ''en'' @ ''>'',
      ''<head>'',
      ''    <meta charset='' @ quoted ''UTF-8'' @ ''>'',
      ''    <meta name='' @ quoted ''viewport'' @ '' content=''
         @ quoted ''width=device-width, initial-scale=1.0'' @ ''>'',
      ''    <title>Generated App</title>'',
      ''</head>'',
      ''<body>'',
      ''    '' @ response,
      ''</body>'',
      ''</html>'']"

definition save_attachment :: "(string \<times> string) list \<Rightarrow> attachment \<Rightarrow> (string \<times> string) list" where
  "save_attachment files att =
     (let name = get_or (att_name att) []; url = get_or (att_url att) [] in
      if name \<noteq> [] \<and> startswith url ''data:'' then AList.update name url files else files)"

definition parse_response :: "string \<Rightarrow> attachment list \<Rightarrow> (string \<times> string) list" where
  "parse_response response attachments =
     (let files = parse_sections response;
          files = (if files = [] then
                     (if py_in ''<!DOCTYPE html>'' response \<or> py_in ''<html'' response
                      then [(''index.html'', strip response)]
                      else [(''index.html'', html_skeleton response)])
                   else files)
      in foldl save_attachment files attachments)"

subsection \<open>Required files\<close>

definition mit_license :: string where
  "mit_license = join_with nl
     [''MIT License'',
      [],
      ''Copyright (c) 2025'',
      [],
      ''Permission is hereby granted, free of charge, to any person obtaining a copy'',
      ''of this software and associated documentation files (the '' @ quoted ''Software'' @ ''), to deal'',
      ''in the Software without restriction, including without limitation the rights'',
      ''to use, copy, modify, merge, publish, distribute, sublicense, and/or sell'',
      ''copies of the Software, and to permit persons to whom the Software is'',
      ''furnished to do so, subject to the following conditions:'',
      [],
      ''The above copyright notice and this permission notice shall be included in all'',
      ''copies or substantial portions of the Software.'',
      [],
      ''THE SOFTWARE IS PROVIDED '' @ quoted ''AS IS'' @ '', WITHOUT WARRANTY OF ANY KIND, EXPRESS OR'',
      ''IMPLIED, INCLUDING BUT NOT LIMITED TO THE WARRANTIES OF MERCHANTABILITY,'',
      ''FITNESS FOR A PARTICULAR PURPOSE AND NONINFRINGEMENT. IN NO EVENT SHALL THE'',
      ''AUTHORS OR COPYRIGHT HOLDERS BE LIABLE FOR ANY CLAIM, DAMAGES OR OTHER'',
      ''LIABILITY, WHETHER IN AN ACTION OF CONTRACT, TORT OR OTHERWISE, ARISING FROM,'',
      ''OUT OF OR IN CONNECTION WITH THE SOFTWARE OR THE USE OR OTHER DEALINGS IN THE'',
      ''SOFTWARE.'']"

definition generate_readme :: "string \<Rightarrow> string list \<Rightarrow> (string \<times> string) list \<Rightarrow> string" where
  "generate_readme brief checks files = join_with nl
     [''# Web Application'',
      [],
      ''## Description'',
      brief,
      [],
      ''## Features'',
      ''This application fulfills the following requirements:'',
      checks_str checks,
      [],
      ''## Setup'',
      ''1. Clone this repository'',
      ''2. Open '' @ [CHR 0x60] @ ''index.html'' @ [CHR 0x60] @ '' in a web browser'',
      ''3. No build process or dependencies required!'',
      [],
      ''## Usage'',
      ''Simply open the '' @ [CHR 0x60] @ ''index.html'' @ [CHR 0x60] @ '' file in your browser. The application is fully self-contained with all necessary CDN resources loaded automatically.'',
      [],
      ''## Code Structure'',
      ''- **index.html**: Main application file containing HTML, CSS, and JavaScript'',
      ''- All external libraries are loaded via CDN for reliability'',
      ''- Modern ES6+ JavaScript is used throughout'',
      ''- Responsive design ensures compatibility across devices'',
      [],
      ''## Technologies Used'',
      ''- HTML5'',
      ''- CSS3'',
      ''- JavaScript (ES6+)'',
      ''- External libraries as specified in requirements'',
      [],
      ''## License'',
      ''This project is licensed under the MIT License - see the LICENSE file for details.'',
      [],
      ''## Generated'',
      ''This application was automatically generated based on project requirements.'']"

text \<open>\<^verbatim>\<open>key not in files\<close>.\<close>

definition not_in :: "string \<Rightarrow> (string \<times> string) list \<Rightarrow> bool" where
  "not_in key files = (map_of files key = None)"

definition add_required_files ::
  "(string \<times> string) list \<Rightarrow> string \<Rightarrow> string list \<Rightarrow> (string \<times> string) list" where
  "add_required_files files brief checks =
     (let files = (if not_in ''LICENSE'' files \<and> not_in ''LICENSE.md'' files
                   then AList.update ''LICENSE'' mit_license files else files)
      in if not_in ''README.md'' files
         then AList.update ''README.md'' (generate_readme brief checks files) files
         else files)"

definition generate_app ::
  "(string \<Rightarrow> string \<Rightarrow> gen_exn + string) \<Rightarrow> (string \<Rightarrow> string option) \<Rightarrow> string
     \<Rightarrow> string \<Rightarrow> string list \<Rightarrow> attachment list \<Rightarrow> gen_exn + (string \<times> string) list" where
  "generate_app backend b64decode_text provider brief checks attachments =
     (let attachments_info = process_attachments b64decode_text attachments;
          prompt = create_prompt brief checks attachments_info
      in case call_llm backend provider prompt of
           Inl e \<Rightarrow> Inl e
         | Inr response \<Rightarrow>
             Inr (add_required_files (parse_response response attachments) brief checks))"



section \<open>app.py: the task pipeline and the submission endpoint\<close>

text \<open>JSON values as \<^verbatim>\<open>request.get_json()\<close> returns them (numbers: integers only).\<close>

datatype json =
    JNull
  | JBool bool
  | JInt int
  | JStr string
  | JList "json list"
  | JObject "(string \<times> json) list"




subsection \<open>The pipeline\<close>

text \<open>
  The task request as the pipeline reads it: the fields the endpoint has checked for
  presence, with the types the pipeline uses them at, and the optional attachments.
\<close>

record task_request =
  task_email :: string
  task_id :: string
  task_round :: int
  task_nonce :: string
  task_brief :: string
  task_checks :: "string list"
  task_attachments :: "attachment list"
  task_evaluation_url :: string

text \<open>
  What the pipeline calls outside the process: the text-generation back end and the
  base64 decoder of the generator, the configured provider (in lower case, as the
  generator's constructor stores it) and account, the hosting
  platform, the callback server, the clock (\<^verbatim>\<open>datetime.utcnow().isoformat()\<close>) and the text
  of an exception of the platform (\<^verbatim>\<open>str(e)\<close>).
\<close>

record 's world =
  w_backend :: "string \<Rightarrow> string \<Rightarrow> gen_exn + string"
  w_b64decode_text :: "string \<Rightarrow> string option"
  w_provider :: string
  w_github :: "'s github"
  w_username :: string
  w_post :: "string \<Rightarrow> (string \<times> json) list \<Rightarrow> nat \<Rightarrow> post_outcome"
  w_utcnow :: string
  w_str :: "exn \<Rightarrow> string"




text \<open>Step 2 of the pipeline: \<^verbatim>\<open>if round_num == 1: create_repo(...) else: update_repo(...)\<close>.\<close>

definition publish ::
  "'s world \<Rightarrow> task_request \<Rightarrow> (string \<times> string) list \<Rightarrow> ('s, string \<times> string \<times> string) gh" where
  "publish W task_data code_files =
     (if task_round task_data = 1
      then create_repo (w_github W) (w_username W) (task_id task_data) code_files
             (''Project: '' @ task_id task_data)
      else update_repo (w_github W) (w_username W) (task_id task_data) code_files)"




subsection \<open>The submission endpoint\<close>

text \<open>
  The state \<^verbatim>\<open>handle_task\<close> runs in: the status tracker and the threads started so far,
  each with the task data it was given. A response is a JSON body with a status code, or,
  when the \<^verbatim>\<open>except Exception\<close> clause is reached, the exception's text with status 500.
\<close>

record server =
  tracker :: "string \<rightharpoonup> (string \<times> json) list"
  threads :: "json list"

datatype endpoint_exn = TypeError | KeyError string

datatype response = JsonResponse "(string \<times> json) list" nat | ServerError endpoint_exn

definition required_fields :: "string list" where
  "required_fields =
     [''email'', ''secret'', ''task'', ''round'', ''nonce'', ''brief'', ''checks'', ''evaluation_url'']"

text \<open>
  \<^verbatim>\<open>field not in task_data\<close>, for whatever JSON value the body is: a key of an object, an
  element of an array, a substring of a string; any other value is not iterable.
\<close>

fun not_in_json :: "string \<Rightarrow> json \<Rightarrow> endpoint_exn + bool" where
  "not_in_json field (JObject members) = Inr (map_of members field = None)"
| "not_in_json field (JList elements) = Inr (JStr field \<notin> set elements)"
| "not_in_json field (JStr s) = Inr (\<not> sublist field s)"
| "not_in_json field other = Inl TypeError"

text \<open>\<^verbatim>\<open>task_data[key]\<close> with a string key: only an object can be read so.\<close>

fun subscript :: "json \<Rightarrow> string \<Rightarrow> endpoint_exn + json" where
  "subscript (JObject members) key =
     (case map_of members key of None \<Rightarrow> Inl (KeyError key) | Some v \<Rightarrow> Inr v)"
| "subscript other key = Inl TypeError"

text \<open>The loop over \<^verbatim>\<open>required_fields\<close>: the first field that is not in the task data.\<close>

fun first_missing :: "string list \<Rightarrow> json \<Rightarrow> endpoint_exn + string option" where
  "first_missing [] task_data = Inr None"
| "first_missing (field # others) task_data =
     (case not_in_json field task_data of
        Inl e \<Rightarrow> Inl e
      | Inr absent \<Rightarrow> if absent then Inr (Some field) else first_missing others task_data)"

definition handle_task :: "string \<Rightarrow> json \<Rightarrow> server \<Rightarrow> response \<times> server" where
  "handle_task SECRET_CODE task_data srv =
     (case first_missing required_fields task_data of
        Inl e \<Rightarrow> (ServerError e, srv)
      | Inr (Some field) \<Rightarrow>
          (JsonResponse [(''error'', JStr (''Missing field: '' @ field))] 400, srv)
      | Inr None \<Rightarrow>
          (case subscript task_data ''secret'' of
             Inl e \<Rightarrow> (ServerError e, srv)
           | Inr secret \<Rightarrow>
               if secret \<noteq> JStr SECRET_CODE
               then (JsonResponse [(''error'', JStr ''Invalid secret'')] 403, srv)
               else
                 (case subscript task_data ''task'' of
                    Inl e \<Rightarrow> (ServerError e, srv)
                  | Inr task \<Rightarrow>
                      (case subscript task_data ''round'' of
                         Inl e \<Rightarrow> (ServerError e, srv)
                       | Inr round_num \<Rightarrow>
                           (JsonResponse
                              [(''status'', JStr ''accepted''),
                               (''message'', JStr ''Task received and processing started''),
                               (''task'', task),
                               (''round'', round_num)] 200,
                            srv\<lparr>threads := threads srv @ [task_data]\<rparr>)))))"

section \<open>Vocabulary of the properties\<close>









text \<open>
  A computation on the platform keeps to \<open>P\<close> and ends in \<open>Q\<close>: from every state, each call
  it makes satisfies \<open>P\<close>, and a result it returns satisfies \<open>Q\<close>.
\<close>

definition gh_sat :: "('a \<Rightarrow> bool) \<Rightarrow> (gh_call \<Rightarrow> bool) \<Rightarrow> ('s, 'a) gh \<Rightarrow> bool" where
  "gh_sat Q P m =
     (\<forall>s. list_all P (snd (snd (m s))) \<and> (case fst (m s) of Inl e \<Rightarrow> True | Inr a \<Rightarrow> Q a))"




text \<open>A request with every required field, for the examples.\<close>

definition demo_request :: "(string \<times> json) list" where
  "demo_request =
     [(''email'', JStr ''a@b.c''), (''secret'', JStr ''s3cret''), (''task'', JStr ''task-1''),
      (''round'', JInt 1), (''nonce'', JStr ''n1''), (''brief'', JStr ''Say hi''),
      (''checks'', JList [JStr ''h1 exists'']), (''evaluation_url'', JStr ''http://cb'')]"







chapter \<open>Verification\<close>

section \<open>The reporter\<close>




lemma length_slice_to_retry_delays: "length (slice_to retry_delays m) \<le> 5"
  by (auto simp: slice_to_def retry_delays_def)


lemma length_posts_attempt_loop: "length (posts (snd (attempt_loop post m es))) \<le> length es"
  by (induction es) (auto simp: split_beta Let_def split: option.splits)











text \<open>
  Claim C10. The loop runs over \<^verbatim>\<open>retry_delays[:max_retries]\<close>, a slice of a list of five
  delays: a \<^verbatim>\<open>max_retries\<close> above 5 gives at most five posts, and \<^verbatim>\<open>max_retries = 0\<close>
  gives \<^verbatim>\<open>False\<close> with no post and no sleep.
\<close>

theorem max_retries_bounds:
  "(5 < max_retries \<longrightarrow>
      length (posts (snd (submit_to_evaluation requests_post url data max_retries))) \<le> 5) \<and>
   submit_to_evaluation requests_post url data 0 = (False, [])"
proof (intro conjI impI)
  have "length (posts (snd (submit_to_evaluation requests_post url data max_retries)))
        \<le> length (enumerate1 (slice_to retry_delays max_retries))"
    unfolding submit_to_evaluation_def by (rule length_posts_attempt_loop)
  also have "\<dots> = length (slice_to retry_delays max_retries)"
    by (simp add: enumerate1_def del: upt_Suc)
  also have "\<dots> \<le> 5" by (rule length_slice_to_retry_delays)
  finally show "length (posts (snd (submit_to_evaluation requests_post url data max_retries))) \<le> 5" .
next
  show "submit_to_evaluation requests_post url data 0 = (False, [])"
    by (simp add: submit_to_evaluation_def slice_to_def enumerate1_def)
qed

text \<open>The theorem at nine attempts allowed and a server that always times out.\<close>

theorem max_retries_bounds_witness:
  "(5::int) < 9 \<and>
   length (posts (snd (submit_to_evaluation (\<lambda>u d attempt. Raises Timeout) ''http://cb'' () 9))) \<le> 5"
  using max_retries_bounds [of 9 "\<lambda>u d attempt. Raises Timeout" "''http://cb''" "()"]
  by simp

section \<open>The publication target\<close>














lemma gh_sat_weaken: "gh_sat Q P m \<Longrightarrow> (\<And>a. Q a \<Longrightarrow> Q' a) \<Longrightarrow> gh_sat Q' P m"
  by (auto simp: gh_sat_def split: sum.splits)
































section \<open>The submission endpoint\<close>

lemma first_missing_object:
  "first_missing names (JObject members) = Inr (find (\<lambda>field. map_of members field = None) names)"
  by (induction names) simp_all

lemma first_missing_complete:
  "first_missing names task_data = Inr None \<Longrightarrow> field \<in> set names \<Longrightarrow>
   not_in_json field task_data = Inr False"
  by (induction names) (auto split: sum.splits if_splits)

lemma handle_task_starts_thread:
  assumes "snd (handle_task SECRET_CODE task_data srv) \<noteq> srv"
  shows "\<exists>members. task_data = JObject members \<and>
           (\<forall>field \<in> set required_fields. map_of members field \<noteq> None) \<and>
           map_of members ''secret'' = Some (JStr SECRET_CODE)"
proof -
  from assms have fm: "first_missing required_fields task_data = Inr None"
    by (auto simp: handle_task_def split: sum.splits option.splits)
  from assms fm obtain secret where s: "subscript task_data ''secret'' = Inr secret"
    by (auto simp: handle_task_def split: sum.splits)
  then obtain members where obj: "task_data = JObject members"
    by (cases task_data) simp_all
  from assms fm s have "secret = JStr SECRET_CODE"
    by (auto simp: handle_task_def split: sum.splits if_splits)
  with s obj have sec: "map_of members ''secret'' = Some (JStr SECRET_CODE)"
    by (auto split: option.splits)
  have "\<forall>field \<in> set required_fields. map_of members field \<noteq> None"
    using first_missing_complete[OF fm] obj by auto
  with obj sec show ?thesis by blast
qed

text \<open>
  Claim C4. A request (a JSON object) that lacks one of the eight required fields is
  answered with 400 and the message naming the first missing field; a request that has
  them all and whose secret is not the configured string is answered with 403. In both
  cases the state of the server is what it was: no thread is started, and the status
  tracker has no new entry. More generally, whatever JSON value the body is, the state
  changes only for an object that has every required field and the configured secret;
  such a request is answered with 200 and starts one thread (the tracker is written by
  that thread, not by the endpoint).
\<close>

theorem handle_task_rejects:
  "((\<exists>field \<in> set required_fields. map_of members field = None) \<longrightarrow>
      (\<exists>field \<in> set required_fields.
         map_of members field = None \<and>
         handle_task SECRET_CODE (JObject members) srv =
           (JsonResponse [(''error'', JStr (''Missing field: '' @ field))] 400, srv))) \<and>
   ((\<forall>field \<in> set required_fields. map_of members field \<noteq> None) \<and>
    map_of members ''secret'' \<noteq> Some (JStr SECRET_CODE) \<longrightarrow>
      handle_task SECRET_CODE (JObject members) srv =
        (JsonResponse [(''error'', JStr ''Invalid secret'')] 403, srv)) \<and>
   (snd (handle_task SECRET_CODE task_data srv) \<noteq> srv \<longrightarrow>
      (\<exists>members. task_data = JObject members \<and>
         (\<forall>field \<in> set required_fields. map_of members field \<noteq> None) \<and>
         map_of members ''secret'' = Some (JStr SECRET_CODE))) \<and>
   ((\<forall>field \<in> set required_fields. map_of members field \<noteq> None) \<and>
    map_of members ''secret'' = Some (JStr SECRET_CODE) \<longrightarrow>
      (\<exists>body. fst (handle_task SECRET_CODE (JObject members) srv) = JsonResponse body 200) \<and>
      snd (handle_task SECRET_CODE (JObject members) srv) =
        \<lparr>tracker = tracker srv, threads = threads srv @ [JObject members]\<rparr>)"
proof (intro conjI impI)
  assume "\<exists>field \<in> set required_fields. map_of members field = None"
  then have "find (\<lambda>field. map_of members field = None) required_fields \<noteq> None"
    by (auto simp: find_None_iff)
  then obtain field where f: "find (\<lambda>field. map_of members field = None) required_fields = Some field"
    by blast
  then have "field \<in> set required_fields" "map_of members field = None"
    by (auto simp: find_Some_iff)
  moreover have "handle_task SECRET_CODE (JObject members) srv =
           (JsonResponse [(''error'', JStr (''Missing field: '' @ field))] 400, srv)"
    using f by (simp add: handle_task_def first_missing_object)
  ultimately show "\<exists>field \<in> set required_fields.
         map_of members field = None \<and>
         handle_task SECRET_CODE (JObject members) srv =
           (JsonResponse [(''error'', JStr (''Missing field: '' @ field))] 400, srv)"
    by blast
next
  assume h: "(\<forall>field \<in> set required_fields. map_of members field \<noteq> None) \<and>
    map_of members ''secret'' \<noteq> Some (JStr SECRET_CODE)"
  then have none: "find (\<lambda>field. map_of members field = None) required_fields = None"
    by (simp add: find_None_iff)
  from h have "map_of members ''secret'' \<noteq> None"
    by (simp add: required_fields_def)
  then obtain secret where s: "map_of members ''secret'' = Some secret" by blast
  with h have "secret \<noteq> JStr SECRET_CODE" by simp
  with none s show "handle_task SECRET_CODE (JObject members) srv =
        (JsonResponse [(''error'', JStr ''Invalid secret'')] 403, srv)"
    by (simp add: handle_task_def first_missing_object)
next
  assume "snd (handle_task SECRET_CODE task_data srv) \<noteq> srv"
  then show "\<exists>members. task_data = JObject members \<and>
         (\<forall>field \<in> set required_fields. map_of members field \<noteq> None) \<and>
         map_of members ''secret'' = Some (JStr SECRET_CODE)"
    by (rule handle_task_starts_thread)
next
  assume h: "(\<forall>field \<in> set required_fields. map_of members field \<noteq> None) \<and>
    map_of members ''secret'' = Some (JStr SECRET_CODE)"
  then have none: "find (\<lambda>field. map_of members field = None) required_fields = None"
    by (simp add: find_None_iff)
  from h obtain task round_num where
    t: "map_of members ''task'' = Some task" and r: "map_of members ''round'' = Some round_num"
    by (auto simp: required_fields_def)
  from none h t r show "\<exists>body. fst (handle_task SECRET_CODE (JObject members) srv) = JsonResponse body 200"
    by (simp add: handle_task_def first_missing_object)
  from none h t r show "snd (handle_task SECRET_CODE (JObject members) srv) =
        \<lparr>tracker = tracker srv, threads = threads srv @ [JObject members]\<rparr>"
    by (simp add: handle_task_def first_missing_object)
qed

text \<open>
  The theorem at a request without its nonce, one with a wrong secret, a good one, and a
  body that is no object.
\<close>

theorem handle_task_rejects_witness:
  "handle_task ''s3cret'' (JObject (filter (\<lambda>kv. fst kv \<noteq> ''nonce'') demo_request))
       \<lparr>tracker = Map.empty, threads = []\<rparr>
     = (JsonResponse [(''error'', JStr ''Missing field: nonce'')] 400,
        \<lparr>tracker = Map.empty, threads = []\<rparr>) \<and>
   handle_task ''other'' (JObject demo_request) \<lparr>tracker = Map.empty, threads = []\<rparr>
     = (JsonResponse [(''error'', JStr ''Invalid secret'')] 403,
        \<lparr>tracker = Map.empty, threads = []\<rparr>) \<and>
   snd (handle_task ''s3cret'' (JObject demo_request) \<lparr>tracker = Map.empty, threads = []\<rparr>)
     = \<lparr>tracker = Map.empty, threads = [JObject demo_request]\<rparr> \<and>
   snd (handle_task ''s3cret'' JNull \<lparr>tracker = Map.empty, threads = []\<rparr>)
     = \<lparr>tracker = Map.empty, threads = []\<rparr>"
proof -
  let ?srv = "\<lparr>tracker = Map.empty, threads = []\<rparr>"
  let ?short = "filter (\<lambda>kv. fst kv \<noteq> ''nonce'') demo_request"
  have a: "handle_task ''s3cret'' (JObject ?short) ?srv
     = (JsonResponse [(''error'', JStr ''Missing field: nonce'')] 400, ?srv)"
    using handle_task_rejects[where members = ?short and SECRET_CODE = "''s3cret''"
        and srv = ?srv, THEN conjunct1]
    by (auto simp: demo_request_def required_fields_def)
  have b: "handle_task ''other'' (JObject demo_request) ?srv
     = (JsonResponse [(''error'', JStr ''Invalid secret'')] 403, ?srv)"
    using handle_task_rejects[where members = demo_request and SECRET_CODE = "''other''"
        and srv = ?srv, THEN conjunct2, THEN conjunct1]
    by (simp add: demo_request_def required_fields_def)
  have c: "snd (handle_task ''s3cret'' (JObject demo_request) ?srv)
     = \<lparr>tracker = Map.empty, threads = [JObject demo_request]\<rparr>"
    using handle_task_rejects[where members = demo_request and SECRET_CODE = "''s3cret''"
        and srv = ?srv, THEN conjunct2, THEN conjunct2, THEN conjunct2]
    by (simp add: demo_request_def required_fields_def)
  have d: "snd (handle_task ''s3cret'' JNull ?srv) = ?srv"
    using handle_task_rejects[where task_data = JNull and SECRET_CODE = "''s3cret''"
        and srv = ?srv, THEN conjunct2, THEN conjunct2, THEN conjunct1]
    by blast
  from a b c d show ?thesis by simp
qed

section \<open>The generator: attachments\<close>

lemma py_in_append: "py_in p (a @ p @ b)"
  by (simp add: py_in_def)

lemma process_attachments_contains:
  assumes "att \<in> set attachments"
  shows "py_in (attachment_info b64 att) (process_attachments b64 attachments)"
proof -
  from assms obtain pre post where "attachments = pre @ att # post"
    by (meson split_list)
  then have "process_attachments b64 attachments =
      (''Attachments:'' @ nl @ concat (map (attachment_info b64) pre)) @ attachment_info b64 att
        @ concat (map (attachment_info b64) post)"
    by (simp add: process_attachments_def)
  then show ?thesis
    using py_in_append by metis
qed

lemma py_in_trans: "py_in a b \<Longrightarrow> py_in b c \<Longrightarrow> py_in a c"
  unfolding py_in_def by (rule sublist_order.order_trans)

lemma create_prompt_contains: "py_in info (create_prompt brief checks info)"
proof -
  have "create_prompt brief checks info =
     (prompt_head @ brief @ nl @ nl @ ''CHECKS (These will be tested):'' @ nl
       @ checks_str checks @ nl @ nl) @ info @ prompt_tail"
    by (simp add: create_prompt_def)
  then show ?thesis using py_in_append by metis
qed

lemma attachment_info_base64:
  assumes "att_url att = Some url" "startswith url ''data:''"
    "split_once (CHR '','') url = Some (mime_info, data)" "py_in ''base64'' mime_info"
  shows "attachment_info b64 att =
     ''- '' @ get_or (att_name att) ''unknown'' @ '': ''
       @ (case b64 data of Some decoded \<Rightarrow> take 200 decoded @ ''...'' | None \<Rightarrow> ''[binary data]'')
       @ nl"
  using assms by (simp add: attachment_info_def get_or_def Let_def split: option.splits)

lemma map_of_save_attachment_other:
  "\<not> (get_or (att_name a) [] = name \<and> startswith (get_or (att_url a) []) ''data:'') \<Longrightarrow>
   name \<noteq> [] \<Longrightarrow>
   map_of (save_attachment files a) name = map_of files name"
  by (auto simp: save_attachment_def Let_def update_conv')

lemma map_of_foldl_save_attachment_other:
  "\<forall>a \<in> set post. \<not> (get_or (att_name a) [] = name \<and> startswith (get_or (att_url a) []) ''data:'') \<Longrightarrow>
   name \<noteq> [] \<Longrightarrow>
   map_of (foldl save_attachment files post) name = map_of files name"
  by (induction post arbitrary: files) (simp_all add: map_of_save_attachment_other)

lemma map_of_add_required_files:
  "map_of files name = Some v \<Longrightarrow> map_of (add_required_files files brief checks) name = Some v"
  by (auto simp: add_required_files_def Let_def not_in_def update_conv')

text \<open>
  Claim C9, as amended. For an attachment of the list whose URL starts with \<^verbatim>\<open>data:\<close>,
  has a comma, and names \<^verbatim>\<open>base64\<close> before the comma: the prompt contains the line
  \<^verbatim>\<open>- <name>: <preview>\<close>, where the name is \<^verbatim>\<open>unknown\<close> when the attachment has
  none and the preview is the first 200 characters of the decoded text followed by
  \<^verbatim>\<open>...\<close>, or \<^verbatim>\<open>[binary data]\<close> when decoding raises. When moreover the attachment has
  a name that is not empty, no later attachment with a data URI has the same name, and
  the generator returns a file set, that set maps the name to the data URI, unchanged.
\<close>

theorem attachment_preview_and_entry:
  assumes "attachments = pre @ att # post"
    and "att_url att = Some url" and "startswith url ''data:''"
    and "split_once (CHR '','') url = Some (mime_info, data)" and "py_in ''base64'' mime_info"
  shows "py_in (''- '' @ get_or (att_name att) ''unknown'' @ '': ''
             @ (case b64decode_text data of
                  Some decoded \<Rightarrow> take 200 decoded @ ''...''
                | None \<Rightarrow> ''[binary data]'') @ nl)
           (create_prompt brief checks (process_attachments b64decode_text attachments)) \<and>
         (att_name att = Some name \<and> name \<noteq> [] \<and>
          (\<forall>a \<in> set post. \<not> (get_or (att_name a) [] = name
                                \<and> startswith (get_or (att_url a) []) ''data:'')) \<and>
          generate_app backend b64decode_text provider brief checks attachments = Inr files
          \<longrightarrow> map_of files name = Some url)"
proof (intro conjI impI)
  have "att \<in> set attachments" using assms(1) by simp
  from process_attachments_contains[OF this, of b64decode_text]
  have "py_in (attachment_info b64decode_text att)
          (create_prompt brief checks (process_attachments b64decode_text attachments))"
    using create_prompt_contains py_in_trans by blast
  then show "py_in (''- '' @ get_or (att_name att) ''unknown'' @ '': ''
             @ (case b64decode_text data of
                  Some decoded \<Rightarrow> take 200 decoded @ ''...''
                | None \<Rightarrow> ''[binary data]'') @ nl)
           (create_prompt brief checks (process_attachments b64decode_text attachments))"
    using attachment_info_base64[OF assms(2-5), of b64decode_text] by simp
next
  assume h: "att_name att = Some name \<and> name \<noteq> [] \<and>
          (\<forall>a \<in> set post. \<not> (get_or (att_name a) [] = name
                                \<and> startswith (get_or (att_url a) []) ''data:'')) \<and>
          generate_app backend b64decode_text provider brief checks attachments = Inr files"
  then obtain response where
    files: "files = add_required_files (parse_response response attachments) brief checks"
    by (auto simp: generate_app_def Let_def split: sum.splits)
  define parsed where "parsed = (let files = parse_sections response in
          if files = [] then
            (if py_in ''<!DOCTYPE html>'' response \<or> py_in ''<html'' response
             then [(''index.html'', strip response)]
             else [(''index.html'', html_skeleton response)])
          else files)"
  have pr: "\<And>as. parse_response response as = foldl save_attachment parsed as"
    by (simp add: parse_response_def parsed_def Let_def)
  have "save_attachment (foldl save_attachment parsed pre) att
        = AList.update name url (foldl save_attachment parsed pre)"
    using h assms(2,3) by (simp add: save_attachment_def get_or_def Let_def)
  then have "map_of (save_attachment (foldl save_attachment parsed pre) att) name = Some url"
    by (simp add: update_conv')
  moreover have "parse_response response attachments =
      foldl save_attachment (save_attachment (foldl save_attachment parsed pre) att) post"
    by (simp add: pr assms(1))
  moreover have "map_of (foldl save_attachment
        (save_attachment (foldl save_attachment parsed pre) att) post) name =
      map_of (save_attachment (foldl save_attachment parsed pre) att) name"
    using h by (intro map_of_foldl_save_attachment_other) auto
  ultimately have "map_of (parse_response response attachments) name = Some url"
    by simp
  then show "map_of files name = Some url"
    unfolding files by (rule map_of_add_required_files)
qed


text \<open>
  The claim as stated fails for an attachment whose name is empty and for one followed
  by another of the same name: of three base64 data URIs only the last is in the file
  set, under \<^verbatim>\<open>a.csv\<close>; the first two are no entry of it.
\<close>

theorem unnamed_and_shadowed_attachments:
  "generate_app (\<lambda>provider prompt. Inr ''<html></html>'') (\<lambda>data. Some ''A'') ''openai'' ''b'' []
     [Attachment (Some []) (Some ''data:text/csv;base64,QQ==''),
      Attachment (Some ''a.csv'') (Some ''data:text/csv;base64,Qg==''),
      Attachment (Some ''a.csv'') (Some ''data:text/csv;base64,Qw=='')]
   = Inr (add_required_files
            [(''index.html'', ''<html></html>''), (''a.csv'', ''data:text/csv;base64,Qw=='')]
            ''b'' []) \<and>
   map fst (add_required_files
            [(''index.html'', ''<html></html>''), (''a.csv'', ''data:text/csv;base64,Qw=='')]
            ''b'' []) = [''index.html'', ''a.csv'', ''LICENSE'', ''README.md''] \<and>
   ''data:text/csv;base64,QQ=='' \<notin> snd ` set (add_required_files
            [(''index.html'', ''<html></html>''), (''a.csv'', ''data:text/csv;base64,Qw=='')]
            ''b'' []) \<and>
   ''data:text/csv;base64,Qg=='' \<notin> snd ` set (add_required_files
            [(''index.html'', ''<html></html>''), (''a.csv'', ''data:text/csv;base64,Qw=='')]
            ''b'' [])"
  by code_simp


text \<open>
  The theorem at one attachment \<^verbatim>\<open>sales.csv\<close>.
\<close>

theorem attachment_preview_and_entry_witness:
  "py_in (''- sales.csv: product,sales...'' @ nl)
     (create_prompt ''Sum the sales'' [''total shown'']
        (process_attachments (\<lambda>data. Some ''product,sales'')
           [Attachment (Some ''sales.csv'') (Some ''data:text/csv;base64,cHJvZHVjdCxzYWxlcw=='')])) \<and>
   generate_app (\<lambda>provider prompt. Inr ''<html></html>'') (\<lambda>data. Some ''product,sales'')
       ''openai'' ''Sum the sales'' [''total shown'']
       [Attachment (Some ''sales.csv'') (Some ''data:text/csv;base64,cHJvZHVjdCxzYWxlcw=='')]
     = Inr (add_required_files
              [(''index.html'', ''<html></html>''),
               (''sales.csv'', ''data:text/csv;base64,cHJvZHVjdCxzYWxlcw=='')]
              ''Sum the sales'' [''total shown'']) \<and>
   map_of (add_required_files
              [(''index.html'', ''<html></html>''),
               (''sales.csv'', ''data:text/csv;base64,cHJvZHVjdCxzYWxlcw=='')]
              ''Sum the sales'' [''total shown'']) ''sales.csv''
     = Some ''data:text/csv;base64,cHJvZHVjdCxzYWxlcw=='' "
proof -
  let ?url = "''data:text/csv;base64,cHJvZHVjdCxzYWxlcw==''"
  let ?att = "Attachment (Some ''sales.csv'') (Some ?url)"
  let ?b64 = "\<lambda>data :: string. Some ''product,sales''"
  let ?backend = "\<lambda>(provider :: string) (prompt :: string). Inr ''<html></html>'' :: gen_exn + string"
  let ?files = "add_required_files
              [(''index.html'', ''<html></html>''), (''sales.csv'', ?url)]
              ''Sum the sales'' [''total shown'']"
  have a1: "[?att] = [] @ ?att # []" by simp
  have a2: "att_url ?att = Some ?url" by simp
  have a3: "startswith ?url ''data:''" by (simp add: startswith_def)
  have a4: "split_once (CHR '','') ?url = Some (''data:text/csv;base64'', ''cHJvZHVjdCxzYWxlcw=='')"
    by simp
  have a5: "py_in ''base64'' ''data:text/csv;base64''" by code_simp
  have gen: "generate_app ?backend ?b64 ''openai'' ''Sum the sales'' [''total shown''] [?att]
      = Inr ?files"
    by code_simp
  note T = attachment_preview_and_entry[OF a1 a2 a3 a4 a5, of ?b64 "''Sum the sales''"
      "[''total shown'']" "''sales.csv''" ?backend "''openai''" ?files]
  from T have p: "py_in (''- sales.csv: product,sales...'' @ nl)
     (create_prompt ''Sum the sales'' [''total shown''] (process_attachments ?b64 [?att]))"
    by (simp add: get_or_def)
  from T gen have m: "map_of ?files ''sales.csv'' = Some ?url"
    by simp
  from p gen m show ?thesis by simp
qed

section \<open>The generator: the delimiter parser\<close>

subsection \<open>split and join\<close>










subsection \<open>strip\<close>










lemma is_space_nl: "is_space (CHR 0x0A)"
  by (simp add: is_space_def)

subsection \<open>marker lines\<close>


lemma not_is_marker_Nil [simp]: "\<not> is_marker []"
  by (simp add: is_marker_def strip_def startswith_def)







subsection \<open>the parser on sections\<close>

































end
